theory Spec2Isabelle
  imports Main "HOL-Library.AList" "HOL-Library.Multiset"
begin

section \<open>Service discovery over Zeroconf: the embedding\<close>

text \<open>
  The development follows \<^verbatim>\<open>src/service-discovery/service_discovery.go\<close>. The
  package keeps a registry of service entries, keyed by service ID, and announces every
  registered service through the external library \<^verbatim>\<open>github.com/grandcat/zeroconf\<close>.
  The library is not part of the package, so its answers are parameters of the model and
  the calls made to it are recorded in a trace.
\<close>

subsection \<open>Values held in an \<^verbatim>\<open>interface{}\<close>\<close>

text \<open>
  \<^verbatim>\<open>Config() interface{}\<close> returns a value of any dynamic type. The type assertion
  \<^verbatim>\<open>s.Config().(map[string]string)\<close> succeeds exactly when the dynamic type is the
  unnamed type \<^verbatim>\<open>map[string]string\<close>; that is the constructor \<open>MapStringString\<close>.
  A map is given by its entries (the keys are pairwise distinct in Go), listed in the
  order in which the \<^verbatim>\<open>range\<close> loop of the call at hand visits them: Go leaves that
  order unspecified, and every order is a list of this type. The other constructors are
  other dynamic types: the nil interface, strings, integers, booleans, slices, maps with
  another element type, and values of a defined (named) type.
\<close>

datatype go_value =
    NilValue
  | StringValue string
  | IntValue int
  | BoolValue bool
  | SliceValue "go_value list"
  | MapStringString "(string \<times> string) list"
  | MapStringInterface "(string \<times> go_value) list"
  | DefinedType string go_value

subsection \<open>The data of the package\<close>

text \<open>
  \<^verbatim>\<open>type Service interface\<close>: what the five getters return during one call of
  \<^verbatim>\<open>Register\<close>. \<^verbatim>\<open>Start\<close> is never called by the package and is left out. Go's
  \<^verbatim>\<open>int\<close> is \<open>int\<close> here: no arithmetic is done on the port.
\<close>

record Service =
  Hostname :: string
  Port :: int
  ServiceType :: string
  ID :: string
  Config :: go_value

text \<open>
  \<^verbatim>\<open>zeroconf.ServiceEntry\<close>, with the three fields that \<^verbatim>\<open>Register\<close> sets; the
  others keep their zero values.
\<close>

record ServiceEntry =
  HostName :: string
  EntryPort :: int
  Text :: "string list"

text \<open>
  \<^verbatim>\<open>type ServiceDiscovery struct\<close>. The resolver is a handle (a number). The field
  \<open>services\<close> is a Go map: \<open>None\<close> is the nil map of a zero-valued struct, \<open>Some m\<close>
  an allocated map with the entries \<open>m\<close>, an association list with one pair per key. A
  pointer to an entry is an \<open>option\<close>: \<open>None\<close> is \<^verbatim>\<open>nil\<close>.
\<close>

record ServiceDiscovery =
  resolver :: nat
  services :: "(string \<times> ServiceEntry) list option"
  serviceType :: string

subsection \<open>The external library and the trace of calls\<close>

text \<open>
  Every call into the library is appended to a trace, oldest call first. The library's
  answer to \<^verbatim>\<open>zeroconf.NewResolver\<close> and \<^verbatim>\<open>zeroconf.Register\<close> is an error text
  (\<open>Inl\<close>) or a handle (\<open>Inr\<close>), and may depend on everything that was called before.
  \<^verbatim>\<open>Shutdown\<close> returns nothing. The arguments \<^verbatim>\<open>nil\<close> (no options, all network
  interfaces) are constant and not recorded.
\<close>

datatype zc_call =
    NewResolver_call
  | Register_call string string string int "string list"
  | Shutdown_call nat

record zeroconf =
  NewResolver_zc :: "zc_call list \<Rightarrow> string + nat"
  Register_zc :: "zc_call list \<Rightarrow> string \<Rightarrow> string \<Rightarrow> string \<Rightarrow> int \<Rightarrow> string list \<Rightarrow> string + nat"

text \<open>
  How a call of the package ends: it returns, or \<^verbatim>\<open>log.Fatalf\<close> prints the message
  and exits the process, or the Go runtime panics.
\<close>

datatype 'a outcome =
    Returned 'a
  | Fatal string
  | Panic string

subsection \<open>\<^verbatim>\<open>NewServiceDiscovery\<close>\<close>

definition NewServiceDiscovery ::
    "zeroconf \<Rightarrow> string \<Rightarrow> zc_call list \<Rightarrow> ServiceDiscovery outcome \<times> zc_call list" where
  "NewServiceDiscovery zc serviceType' tr =
     (case NewResolver_zc zc tr of
        Inl err \<Rightarrow> (Fatal (''Failed to initialize resolver: '' @ err), tr @ [NewResolver_call])
      | Inr resolver' \<Rightarrow>
          (Returned \<lparr>resolver = resolver', services = Some [], serviceType = serviceType'\<rparr>,
           tr @ [NewResolver_call]))"

subsection \<open>\<^verbatim>\<open>Register\<close>\<close>

text \<open>
  Lines 53 to 59: the loop appends \<^verbatim>\<open>key+"="+val\<close> for every entry visited; when the
  type assertion fails \<^verbatim>\<open>txtRecords\<close> stays the nil slice, which is the empty list.
\<close>

fun txtRecords_loop :: "string list \<Rightarrow> (string \<times> string) list \<Rightarrow> string list" where
  "txtRecords_loop txtRecords [] = txtRecords"
| "txtRecords_loop txtRecords ((key, val) # rest) =
     txtRecords_loop (txtRecords @ [key @ ''='' @ val]) rest"

fun txtRecords_of :: "go_value \<Rightarrow> string list" where
  "txtRecords_of (MapStringString configMap) = txtRecords_loop [] configMap"
| "txtRecords_of _ = []"

text \<open>
  Lines 61 to 74. The library is called once; on an error the process exits. The store
  into \<^verbatim>\<open>sd.services\<close> panics on a nil map, before the \<^verbatim>\<open>defer\<close> statement is
  reached. Otherwise the deferred \<^verbatim>\<open>server.Shutdown()\<close> runs when the function returns.
\<close>

definition Register ::
    "zeroconf \<Rightarrow> Service \<Rightarrow> ServiceDiscovery \<times> zc_call list
       \<Rightarrow> ServiceDiscovery outcome \<times> zc_call list" where
  "Register zc s st =
     (let sd = fst st; tr = snd st;
          txtRecords = txtRecords_of (Config s);
          tr' = tr @ [Register_call (Hostname s) (ServiceType s) ''local.'' (Port s) txtRecords]
      in case Register_zc zc tr (Hostname s) (ServiceType s) ''local.'' (Port s) txtRecords of
           Inl err \<Rightarrow> (Fatal (''Failed to register service: '' @ err), tr')
         | Inr server \<Rightarrow>
             (case services sd of
                None \<Rightarrow> (Panic ''assignment to entry in nil map'', tr')
              | Some m \<Rightarrow>
                  (Returned (sd\<lparr>services := Some (AList.update (ID s)
                       \<lparr>HostName = Hostname s, EntryPort = Port s, Text = txtRecords\<rparr> m)\<rparr>),
                   tr' @ [Shutdown_call server])))"

subsection \<open>\<^verbatim>\<open>GetServices\<close> and \<^verbatim>\<open>GetServiceById\<close>\<close>

text \<open>
  The keys of the registry; a nil map has none.
\<close>

definition service_keys :: "ServiceDiscovery \<Rightarrow> string list" where
  "service_keys sd = (case services sd of None \<Rightarrow> [] | Some m \<Rightarrow> map fst m)"

fun GetServices_loop :: "string list \<Rightarrow> string list \<Rightarrow> string list" where
  "GetServices_loop ids [] = ids"
| "GetServices_loop ids (id' # rest) = GetServices_loop (ids @ [id']) rest"

text \<open>
  The \<^verbatim>\<open>range\<close> loop visits the keys in an order the runtime chooses anew at every
  call: \<open>shuffle\<close> is that choice, a rearrangement of the keys.
\<close>

definition GetServices :: "(string list \<Rightarrow> string list) \<Rightarrow> ServiceDiscovery \<Rightarrow> string list" where
  "GetServices shuffle sd = GetServices_loop [] (shuffle (service_keys sd))"

definition rearranges :: "(string list \<Rightarrow> string list) \<Rightarrow> string list \<Rightarrow> bool" where
  "rearranges shuffle ks \<longleftrightarrow> mset (shuffle ks) = mset ks"

text \<open>
  Reading a Go map at a missing key, and reading a nil map, give the zero value of the
  element type: the nil pointer.
\<close>

definition GetServiceById :: "ServiceDiscovery \<Rightarrow> string \<Rightarrow> ServiceEntry option" where
  "GetServiceById sd id' = (case services sd of None \<Rightarrow> None | Some m \<Rightarrow> map_of m id')"

subsection \<open>Sequences of calls on one instance\<close>

text \<open>
  A caller invokes the three methods one after the other on the same instance. A call
  that exits or panics ends the sequence. The getters return a value and write nothing.
\<close>

datatype op =
    Register_op Service
  | GetServices_op "string list \<Rightarrow> string list"
  | GetServiceById_op string

datatype op_result =
    Register_done
  | GetServices_ids "string list"
  | GetServiceById_entry "ServiceEntry option"

fun call ::
    "zeroconf \<Rightarrow> op \<Rightarrow> ServiceDiscovery \<times> zc_call list
       \<Rightarrow> (op_result \<times> ServiceDiscovery) outcome \<times> zc_call list" where
  "call zc (Register_op s) st =
     (case Register zc s st of
        (Returned sd', tr') \<Rightarrow> (Returned (Register_done, sd'), tr')
      | (Fatal msg, tr') \<Rightarrow> (Fatal msg, tr')
      | (Panic msg, tr') \<Rightarrow> (Panic msg, tr'))"
| "call zc (GetServices_op shuffle) st =
     (Returned (GetServices_ids (GetServices shuffle (fst st)), fst st), snd st)"
| "call zc (GetServiceById_op id') st =
     (Returned (GetServiceById_entry (GetServiceById (fst st) id'), fst st), snd st)"

fun run ::
    "zeroconf \<Rightarrow> op list \<Rightarrow> ServiceDiscovery \<times> zc_call list
       \<Rightarrow> (op_result list \<times> ServiceDiscovery) outcome \<times> zc_call list" where
  "run zc [] st = (Returned ([], fst st), snd st)"
| "run zc (c # cs) st =
     (case call zc c st of
        (Returned (r, sd'), tr') \<Rightarrow>
          (case run zc cs (sd', tr') of
             (Returned (rs, sd''), tr'') \<Rightarrow> (Returned (r # rs, sd''), tr'')
           | (Fatal msg, tr'') \<Rightarrow> (Fatal msg, tr'')
           | (Panic msg, tr'') \<Rightarrow> (Panic msg, tr''))
      | (Fatal msg, tr') \<Rightarrow> (Fatal msg, tr')
      | (Panic msg, tr') \<Rightarrow> (Panic msg, tr'))"

text \<open>The services that a sequence of calls registers, in order.\<close>

fun registered :: "op list \<Rightarrow> Service list" where
  "registered [] = []"
| "registered (Register_op s # cs) = s # registered cs"
| "registered (_ # cs) = registered cs"

subsection \<open>Reading the TXT records back\<close>


subsection \<open>The shape of a configuration, in the specification's words\<close>

text \<open>
  The specification speaks of a value that is structurally a string-to-string mapping.
  Structure disregards the name of a type: a value of a defined type has the structure
  of its underlying type. \<open>structural_entries\<close> gives the entries of such a value, and
  \<open>None\<close> for a value of another structure. It is written from the specification's
  words; the package has no such function.
\<close>

fun structural_entries :: "go_value \<Rightarrow> (string \<times> string) list option" where
  "structural_entries (MapStringString configMap) = Some configMap"
| "structural_entries (DefinedType name underlying) = structural_entries underlying"
| "structural_entries _ = None"

subsection \<open>Two libraries to run the model on\<close>

text \<open>
  \<open>checking_zeroconf\<close> never fails on the network and refuses, as the library does, an
  empty instance name, an empty service name and port 0; a handle is the number of calls
  made before. \<open>offline_zeroconf\<close> finds no network interface and fails every call.
\<close>

definition checking_zeroconf :: zeroconf where
  "checking_zeroconf =
     \<lparr>NewResolver_zc = (\<lambda>tr. Inr (length tr)),
      Register_zc = (\<lambda>tr instance service domain port text.
         if instance = [] then Inl ''missing service instance name''
         else if service = [] then Inl ''missing service name''
         else if port = 0 then Inl ''missing port''
         else Inr (length tr))\<rparr>"

definition offline_zeroconf :: zeroconf where
  "offline_zeroconf =
     \<lparr>NewResolver_zc = (\<lambda>tr. Inl ''no multicast interface''),
      Register_zc = (\<lambda>tr instance service domain port text. Inl ''no multicast interface'')\<rparr>"

text \<open>
  Three services: the example of the specification, a second service with the same ID
  and a configuration that is a plain string, and a third whose configuration has a
  defined type over \<^verbatim>\<open>map[string]string\<close>.
\<close>

definition svc1 :: Service where
  "svc1 = \<lparr>Hostname = ''host1'', Port = 8080, ServiceType = ''_myService._tcp'', ID = ''svc1'',
            Config = MapStringString [(''v'', ''1''), (''env'', ''prod'')]\<rparr>"

definition svc1b :: Service where
  "svc1b = \<lparr>Hostname = ''host2'', Port = 9090, ServiceType = ''_other._tcp'', ID = ''svc1'',
             Config = StringValue ''v=1''\<rparr>"

definition svc2 :: Service where
  "svc2 = \<lparr>Hostname = ''host3'', Port = 443, ServiceType = ''_myService._tcp'', ID = ''svc2'',
            Config = DefinedType ''Settings'' (MapStringString [(''v'', ''2'')])\<rparr>"

text \<open>
  The states and traces that the examples pass through: a fresh instance, the instance
  after \<open>svc1\<close>, after \<open>svc1\<close> and then \<open>svc1b\<close>, and after \<open>svc1\<close> and \<open>svc2\<close>.
\<close>

definition sd_fresh :: ServiceDiscovery where
  "sd_fresh = \<lparr>resolver = 0, services = Some [], serviceType = ''_myService._tcp''\<rparr>"

definition tr_fresh :: "zc_call list" where
  "tr_fresh = [NewResolver_call]"

definition sd_svc1 :: ServiceDiscovery where
  "sd_svc1 = \<lparr>resolver = 0,
      services = Some [(''svc1'', \<lparr>HostName = ''host1'', EntryPort = 8080, Text = [''v=1'', ''env=prod'']\<rparr>)],
      serviceType = ''_myService._tcp''\<rparr>"

definition tr_svc1 :: "zc_call list" where
  "tr_svc1 = [NewResolver_call,
      Register_call ''host1'' ''_myService._tcp'' ''local.'' 8080 [''v=1'', ''env=prod''],
      Shutdown_call 1]"

definition sd_svc1b :: ServiceDiscovery where
  "sd_svc1b = \<lparr>resolver = 0,
      services = Some [(''svc1'', \<lparr>HostName = ''host2'', EntryPort = 9090, Text = []\<rparr>)],
      serviceType = ''_myService._tcp''\<rparr>"

definition tr_svc1b :: "zc_call list" where
  "tr_svc1b = tr_svc1 @ [Register_call ''host2'' ''_other._tcp'' ''local.'' 9090 [], Shutdown_call 3]"

definition ops_two :: "op list" where
  "ops_two = [Register_op svc1, GetServices_op rev, Register_op svc2, GetServiceById_op ''svc1'']"

definition rs_two :: "op_result list" where
  "rs_two = [Register_done, GetServices_ids [''svc1''], Register_done,
      GetServiceById_entry (Some \<lparr>HostName = ''host1'', EntryPort = 8080, Text = [''v=1'', ''env=prod'']\<rparr>)]"

definition sd_two :: ServiceDiscovery where
  "sd_two = \<lparr>resolver = 0,
      services = Some [(''svc1'', \<lparr>HostName = ''host1'', EntryPort = 8080, Text = [''v=1'', ''env=prod'']\<rparr>),
                       (''svc2'', \<lparr>HostName = ''host3'', EntryPort = 443, Text = []\<rparr>)],
      serviceType = ''_myService._tcp''\<rparr>"

definition tr_two :: "zc_call list" where
  "tr_two = tr_svc1 @ [Register_call ''host3'' ''_myService._tcp'' ''local.'' 443 [], Shutdown_call 3]"

section \<open>Properties\<close>

subsection \<open>The loops, and what a returning \<^verbatim>\<open>Register\<close> has done\<close>

lemma txtRecords_loop_eq: "txtRecords_loop acc kvs = acc @ map (\<lambda>(k, v). k @ ''='' @ v) kvs"
  by (induction acc kvs rule: txtRecords_loop.induct) simp_all

lemma GetServices_loop_eq: "GetServices_loop ids ks = ids @ ks"
  by (induction ids ks rule: GetServices_loop.induct) simp_all

lemma Register_Returned:
  "Register zc s (sd, tr) = (Returned sd', tr') \<longleftrightarrow>
     (\<exists>server m. Register_zc zc tr (Hostname s) (ServiceType s) ''local.'' (Port s) (txtRecords_of (Config s)) = Inr server
        \<and> services sd = Some m
        \<and> sd' = sd\<lparr>services := Some (AList.update (ID s)
                       \<lparr>HostName = Hostname s, EntryPort = Port s, Text = txtRecords_of (Config s)\<rparr> m)\<rparr>
        \<and> tr' = tr @ [Register_call (Hostname s) (ServiceType s) ''local.'' (Port s) (txtRecords_of (Config s)), Shutdown_call server])"
  by (auto simp: Register_def Let_def split: sum.splits option.splits)

lemma Register_calls_library:
  "\<exists>rest. snd (Register zc s (sd, tr)) =
     tr @ Register_call (Hostname s) (ServiceType s) ''local.'' (Port s) (txtRecords_of (Config s)) # rest"
  by (simp add: Register_def Let_def split: sum.splits option.splits)

lemma GetServiceById_keys: "GetServiceById sd i \<noteq> None \<longleftrightarrow> i \<in> set (service_keys sd)"
  by (auto simp: GetServiceById_def service_keys_def dom_map_of_conv_image_fst [symmetric]
      split: option.splits)

lemma Register_lookup:
  assumes "Register zc s (sd, tr) = (Returned sd', tr')"
  shows "GetServiceById sd' i =
     (if i = ID s then Some \<lparr>HostName = Hostname s, EntryPort = Port s, Text = txtRecords_of (Config s)\<rparr>
      else GetServiceById sd i)"
  using assms by (auto simp: Register_Returned GetServiceById_def update_conv')

lemma update_present_keys: "k \<in> fst ` set al \<Longrightarrow> map fst (AList.update k v al) = map fst al"
  by (induction al) auto

lemma Register_keys:
  assumes "Register zc s (sd, tr) = (Returned sd', tr')"
  shows "set (service_keys sd') = insert (ID s) (set (service_keys sd))"
    and "distinct (service_keys sd) \<Longrightarrow> distinct (service_keys sd')"
proof -
  from assms obtain m e where m: "services sd = Some m"
    and m': "services sd' = Some (AList.update (ID s) e m)"
    unfolding Register_Returned by auto
  have "set (map fst (AList.update (ID s) e m)) = insert (ID s) (set (map fst m))"
    using dom_update [of "ID s" e m] by simp
  then show "set (service_keys sd') = insert (ID s) (set (service_keys sd))"
    by (simp add: service_keys_def m m')
  show "distinct (service_keys sd')" if "distinct (service_keys sd)"
    using that by (simp add: service_keys_def m m' distinct_update)
qed

lemma call_Returned_cases:
  assumes "call zc c (sd, tr) = (Returned (r, sd'), tr')"
  shows "(\<exists>s. c = Register_op s \<and> Register zc s (sd, tr) = (Returned sd', tr'))
       \<or> ((\<forall>s. c \<noteq> Register_op s) \<and> sd' = sd \<and> tr' = tr)"
  using assms by (cases c) (auto split: prod.splits outcome.splits)

lemma run_Cons_Returned:
  "run zc (c # cs) (sd, tr) = (Returned (rs, sd'), tr') \<longleftrightarrow>
     (\<exists>r rs' sd1 tr1. call zc c (sd, tr) = (Returned (r, sd1), tr1)
        \<and> run zc cs (sd1, tr1) = (Returned (rs', sd'), tr') \<and> rs = r # rs')"
  by (auto split: prod.splits outcome.splits)

lemma run_lookup_unregistered:
  "run zc ops (sd, tr) = (Returned (rs, sd'), tr') \<Longrightarrow> i \<notin> ID ` set (registered ops)
     \<Longrightarrow> GetServiceById sd' i = GetServiceById sd i"
proof (induction ops arbitrary: sd tr rs)
  case Nil
  then show ?case by simp
next
  case (Cons c cs)
  from Cons.prems(1) obtain r rs' sd1 tr1 where
    c: "call zc c (sd, tr) = (Returned (r, sd1), tr1)" and
    r: "run zc cs (sd1, tr1) = (Returned (rs', sd'), tr')"
    unfolding run_Cons_Returned by blast
  have rest: "i \<notin> ID ` set (registered cs)"
    using Cons.prems(2) by (cases c) auto
  have "GetServiceById sd1 i = GetServiceById sd i"
    using call_Returned_cases [OF c] Cons.prems(2) by (auto simp: Register_lookup)
  with Cons.IH [OF r rest] show ?case by simp
qed

lemma run_keys:
  "run zc ops (sd, tr) = (Returned (rs, sd'), tr') \<Longrightarrow>
     set (service_keys sd') = set (service_keys sd) \<union> ID ` set (registered ops)
     \<and> (distinct (service_keys sd) \<longrightarrow> distinct (service_keys sd'))"
proof (induction ops arbitrary: sd tr rs)
  case Nil
  then show ?case by simp
next
  case (Cons c cs)
  from Cons.prems(1) obtain r rs' sd1 tr1 where
    c: "call zc c (sd, tr) = (Returned (r, sd1), tr1)" and
    r: "run zc cs (sd1, tr1) = (Returned (rs', sd'), tr')"
    unfolding run_Cons_Returned by blast
  have step: "set (service_keys sd1) = set (service_keys sd) \<union> ID ` set (registered [c])
      \<and> (distinct (service_keys sd) \<longrightarrow> distinct (service_keys sd1))"
    using call_Returned_cases [OF c] by (cases c) (auto simp: Register_keys)
  have split: "registered (c # cs) = registered [c] @ registered cs"
    by (cases c) auto
  from Cons.IH [OF r] step show ?case
    unfolding split by auto
qed

lemma NewServiceDiscovery_Returned:
  "NewServiceDiscovery zc t tr = (Returned sd, tr') \<Longrightarrow> services sd = Some [] \<and> serviceType sd = t"
  by (auto simp: NewServiceDiscovery_def split: sum.splits)


lemma run_lookup_preserved:
  assumes "run zc ops (sd, tr) = (Returned (rs, sd'), tr')" and "GetServiceById sd i \<noteq> None"
  shows "GetServiceById sd' i \<noteq> None"
  using run_keys [OF assms(1)] assms(2) unfolding GetServiceById_keys by blast

lemma Register_serviceType:
  "Register zc s (sd\<lparr>serviceType := t\<rparr>, tr) =
     (case Register zc s (sd, tr) of
        (out, tr') \<Rightarrow> (map_outcome (\<lambda>sd'. sd'\<lparr>serviceType := t\<rparr>) out, tr'))"
  by (simp add: Register_def Let_def split: sum.splits option.splits)

lemma call_serviceType:
  "call zc c (sd\<lparr>serviceType := t\<rparr>, tr) =
     (case call zc c (sd, tr) of
        (out, tr') \<Rightarrow> (map_outcome (\<lambda>(r, sd'). (r, sd'\<lparr>serviceType := t\<rparr>)) out, tr'))"
proof (cases c)
  case (Register_op s)
  then show ?thesis
    by (simp add: Register_serviceType split: prod.splits outcome.splits)
next
  case (GetServices_op shuffle)
  then show ?thesis by (simp add: GetServices_def service_keys_def)
next
  case (GetServiceById_op i)
  then show ?thesis by (simp add: GetServiceById_def)
qed

lemma run_serviceType:
  "run zc ops (sd\<lparr>serviceType := t\<rparr>, tr) =
     (case run zc ops (sd, tr) of
        (out, tr') \<Rightarrow> (map_outcome (\<lambda>(rs, sd'). (rs, sd'\<lparr>serviceType := t\<rparr>)) out, tr'))"
proof (induction ops arbitrary: sd tr)
  case Nil
  then show ?case by simp
next
  case (Cons c cs)
  show ?case
  proof (cases "call zc c (sd, tr)")
    case (Pair out tr1)
    show ?thesis
    proof (cases out)
      case (Returned p)
      obtain r sd1 where p: "p = (r, sd1)" by (cases p)
      show ?thesis
        using Pair Returned p Cons.IH [of sd1 tr1]
        by (simp add: call_serviceType split: prod.splits outcome.splits)
    next
      case (Fatal msg)
      with Pair show ?thesis by (simp add: call_serviceType)
    next
      case (Panic msg)
      with Pair show ?thesis by (simp add: call_serviceType)
    qed
  qed
qed

subsection \<open>The examples, evaluated\<close>

lemmas example_defs = sd_fresh_def tr_fresh_def sd_svc1_def tr_svc1_def sd_svc1b_def tr_svc1b_def
  ops_two_def rs_two_def sd_two_def tr_two_def svc1_def svc1b_def svc2_def
  checking_zeroconf_def offline_zeroconf_def

lemma fresh_eval:
  "NewServiceDiscovery checking_zeroconf ''_myService._tcp'' [] = (Returned sd_fresh, tr_fresh)"
  by (simp add: NewServiceDiscovery_def example_defs)

lemma svc1_eval: "Register checking_zeroconf svc1 (sd_fresh, tr_fresh) = (Returned sd_svc1, tr_svc1)"
  by (simp add: Register_def Let_def example_defs)

lemma svc1b_eval: "Register checking_zeroconf svc1b (sd_svc1, tr_svc1) = (Returned sd_svc1b, tr_svc1b)"
  by (simp add: Register_def Let_def example_defs)

lemma svc2_eval: "Register checking_zeroconf svc2 (sd_svc1, tr_svc1) = (Returned sd_two, tr_two)"
  by (simp add: Register_def Let_def example_defs)

lemma two_eval: "run checking_zeroconf ops_two (sd_fresh, tr_fresh) = (Returned (rs_two, sd_two), tr_two)"
  by (simp add: Register_def Let_def GetServices_def GetServiceById_def service_keys_def example_defs)

subsection \<open>The claims\<close>

text \<open>
  Claim C1. For every service \<open>s\<close>, once \<^verbatim>\<open>Register(s)\<close> has returned,
  \<^verbatim>\<open>GetServiceById(s.ID())\<close> gives a present entry whose host name is
  \<^verbatim>\<open>s.Hostname()\<close> and whose port is \<^verbatim>\<open>s.Port()\<close>.
\<close>

theorem Register_then_GetServiceById:
  assumes "Register zc s (sd, tr) = (Returned sd', tr')"
  shows "\<exists>e. GetServiceById sd' (ID s) = Some e \<and> HostName e = Hostname s \<and> EntryPort e = Port s"
  using Register_lookup [OF assms, of "ID s"] by simp

theorem Register_then_GetServiceById_witness:
  "Register checking_zeroconf svc1 (sd_fresh, tr_fresh) = (Returned sd_svc1, tr_svc1)
   \<and> (\<exists>e. GetServiceById sd_svc1 (ID svc1) = Some e \<and> HostName e = Hostname svc1 \<and> EntryPort e = Port svc1)"
  using svc1_eval Register_then_GetServiceById [OF svc1_eval] by blast

text \<open>
  Claim C2, as stated: the encoder that \<^verbatim>\<open>Register\<close> applies emits one
  \<^verbatim>\<open>key=value\<close> string per entry when the configuration value is structurally a
  string-to-string mapping. The code does not: the type assertion asks for the unnamed
  type \<^verbatim>\<open>map[string]string\<close>, so a value of the defined type
  \<^verbatim>\<open>type Settings map[string]string\<close> with the entry \<^verbatim>\<open>"v": "2"\<close> is a
  string-to-string mapping by structure and is encoded as no record at all.
\<close>

theorem config_encoder_defined_type_counterexample:
  "structural_entries (DefinedType ''Settings'' (MapStringString [(''v'', ''2'')])) = Some [(''v'', ''2'')]
   \<and> txtRecords_of (DefinedType ''Settings'' (MapStringString [(''v'', ''2'')])) = []
   \<and> txtRecords_of (DefinedType ''Settings'' (MapStringString [(''v'', ''2'')]))
        \<noteq> map (\<lambda>(key, val). key @ ''='' @ val) [(''v'', ''2'')]"
  by simp

text \<open>
  Claim C2, amended. The encoder that \<^verbatim>\<open>Register\<close> applies emits one
  \<^verbatim>\<open>key=value\<close> string per entry when the dynamic type of the configuration value
  is exactly the unnamed type \<^verbatim>\<open>map[string]string\<close>, and the empty sequence for a
  value of every other dynamic type, a defined type over \<^verbatim>\<open>map[string]string\<close>
  included. No configuration raises an error: whatever its shape, when the library
  accepts the registration and the registry is allocated, \<^verbatim>\<open>Register\<close> returns,
  having stored the encoded records in the entry and passed them to the library.
\<close>

theorem config_encoder_dynamic_type:
  "txtRecords_of (MapStringString configMap) = map (\<lambda>(key, val). key @ ''='' @ val) configMap
   \<and> ((\<forall>m. c \<noteq> MapStringString m) \<longrightarrow> txtRecords_of c = [])
   \<and> (Register_zc zc tr (Hostname s) (ServiceType s) ''local.'' (Port s) (txtRecords_of (Config s)) = Inr server
        \<and> services sd = Some reg
      \<longrightarrow> Register zc s (sd, tr) =
            (Returned (sd\<lparr>services := Some (AList.update (ID s)
                 \<lparr>HostName = Hostname s, EntryPort = Port s, Text = txtRecords_of (Config s)\<rparr> reg)\<rparr>),
             tr @ [Register_call (Hostname s) (ServiceType s) ''local.'' (Port s) (txtRecords_of (Config s)),
                   Shutdown_call server]))"
proof (intro conjI impI)
  show "txtRecords_of (MapStringString configMap) = map (\<lambda>(key, val). key @ ''='' @ val) configMap"
    by (simp add: txtRecords_loop_eq)
  show "txtRecords_of c = []" if "\<forall>m. c \<noteq> MapStringString m"
    using that by (cases c) simp_all
  show "Register zc s (sd, tr) =
            (Returned (sd\<lparr>services := Some (AList.update (ID s)
                 \<lparr>HostName = Hostname s, EntryPort = Port s, Text = txtRecords_of (Config s)\<rparr> reg)\<rparr>),
             tr @ [Register_call (Hostname s) (ServiceType s) ''local.'' (Port s) (txtRecords_of (Config s)),
                   Shutdown_call server])"
    if "Register_zc zc tr (Hostname s) (ServiceType s) ''local.'' (Port s) (txtRecords_of (Config s)) = Inr server
        \<and> services sd = Some reg"
    using that unfolding Register_Returned by simp
qed

theorem config_encoder_dynamic_type_witness:
  "txtRecords_of (MapStringString [(''v'', ''1''), (''env'', ''prod'')]) = [''v=1'', ''env=prod'']
   \<and> (\<forall>m. DefinedType ''Settings'' (MapStringString [(''v'', ''2'')]) \<noteq> MapStringString m)
   \<and> txtRecords_of (DefinedType ''Settings'' (MapStringString [(''v'', ''2'')])) = []
   \<and> Register_zc checking_zeroconf tr_svc1 ''host3'' ''_myService._tcp'' ''local.'' 443 [] = Inr 3
   \<and> services sd_svc1 =
        Some [(''svc1'', \<lparr>HostName = ''host1'', EntryPort = 8080, Text = [''v=1'', ''env=prod'']\<rparr>)]
   \<and> Register checking_zeroconf svc2 (sd_svc1, tr_svc1) = (Returned sd_two, tr_two)"
  using config_encoder_dynamic_type [of "[(''v'', ''1''), (''env'', ''prod'')]"
      "DefinedType ''Settings'' (MapStringString [(''v'', ''2'')])" checking_zeroconf tr_svc1 svc2 3
      sd_svc1 "[(''svc1'', \<lparr>HostName = ''host1'', EntryPort = 8080, Text = [''v=1'', ''env=prod'']\<rparr>)]"]
  by (simp add: example_defs)

text \<open>
  Claim C3. For two services with the same ID, registered one after the other,
  \<^verbatim>\<open>GetServiceById\<close> of that ID gives the entry built from the second one; the
  second registration overwrites the entry and adds no key, so \<^verbatim>\<open>GetServices\<close>
  lists what it listed before.
\<close>

theorem Register_last_write_wins:
  assumes "ID s1 = ID s2"
    and "Register zc s1 (sd, tr) = (Returned sd1, tr1)"
    and "Register zc s2 (sd1, tr1) = (Returned sd2, tr2)"
  shows "GetServiceById sd2 (ID s1) =
           Some \<lparr>HostName = Hostname s2, EntryPort = Port s2, Text = txtRecords_of (Config s2)\<rparr>
         \<and> GetServices shuffle sd2 = GetServices shuffle sd1"
proof
  show "GetServiceById sd2 (ID s1) =
           Some \<lparr>HostName = Hostname s2, EntryPort = Port s2, Text = txtRecords_of (Config s2)\<rparr>"
    using Register_lookup [OF assms(3), of "ID s1"] assms(1) by simp
  have "ID s2 \<in> set (service_keys sd1)"
    using Register_keys(1) [OF assms(2)] assms(1) by simp
  moreover from assms(3) obtain m e where "services sd1 = Some m"
    and "services sd2 = Some (AList.update (ID s2) e m)"
    unfolding Register_Returned by auto
  ultimately have "service_keys sd2 = service_keys sd1"
    by (simp add: service_keys_def update_present_keys)
  then show "GetServices shuffle sd2 = GetServices shuffle sd1"
    by (simp add: GetServices_def)
qed

theorem Register_last_write_wins_witness:
  "ID svc1 = ID svc1b
   \<and> Register checking_zeroconf svc1 (sd_fresh, tr_fresh) = (Returned sd_svc1, tr_svc1)
   \<and> Register checking_zeroconf svc1b (sd_svc1, tr_svc1) = (Returned sd_svc1b, tr_svc1b)
   \<and> GetServiceById sd_svc1b ''svc1'' = Some \<lparr>HostName = ''host2'', EntryPort = 9090, Text = []\<rparr>
   \<and> GetServices rev sd_svc1b = GetServices rev sd_svc1"
proof -
  have same: "ID svc1 = ID svc1b" by (simp add: svc1_def svc1b_def)
  from Register_last_write_wins [OF same svc1_eval svc1b_eval, of rev] same svc1_eval svc1b_eval
  show ?thesis by (simp add: svc1_def svc1b_def)
qed

text \<open>
  Claim C4. On an instance made by \<^verbatim>\<open>NewServiceDiscovery\<close>, after any sequence of
  calls that registers no service with the ID \<open>i\<close>, \<^verbatim>\<open>GetServiceById(i)\<close> returns
  normally with the nil pointer: no exit, no panic, no entry. The lookup is pure: the
  instance and the trace of library calls are as before.
\<close>

theorem GetServiceById_never_registered:
  assumes "NewServiceDiscovery zc t tr0 = (Returned sd0, tr1)"
    and "run zc ops (sd0, tr1) = (Returned (rs, sd), tr)"
    and "i \<notin> ID ` set (registered ops)"
  shows "call zc (GetServiceById_op i) (sd, tr) = (Returned (GetServiceById_entry None, sd), tr)"
proof -
  have "GetServiceById sd0 i = None"
    using NewServiceDiscovery_Returned [OF assms(1)] by (simp add: GetServiceById_def)
  with run_lookup_unregistered [OF assms(2,3)] show ?thesis by simp
qed

theorem GetServiceById_never_registered_witness:
  "NewServiceDiscovery checking_zeroconf ''_myService._tcp'' [] = (Returned sd_fresh, tr_fresh)
   \<and> run checking_zeroconf ops_two (sd_fresh, tr_fresh) = (Returned (rs_two, sd_two), tr_two)
   \<and> ''svc3'' \<notin> ID ` set (registered ops_two)
   \<and> call checking_zeroconf (GetServiceById_op ''svc3'') (sd_two, tr_two) =
       (Returned (GetServiceById_entry None, sd_two), tr_two)"
proof -
  have never: "''svc3'' \<notin> ID ` set (registered ops_two)"
    by (simp add: ops_two_def svc1_def svc2_def)
  from GetServiceById_never_registered [OF fresh_eval two_eval never] fresh_eval two_eval never
  show ?thesis by simp
qed

text \<open>
  Claim C5. When the library fails to build the resolver, \<^verbatim>\<open>NewServiceDiscovery\<close>
  exits the process; when the library fails to register, \<^verbatim>\<open>Register\<close> exits the
  process. In both cases the failed call is the only call made (nothing is retried) and
  nothing is returned to the caller.
\<close>

theorem failures_abort_process:
  "(NewResolver_zc zc tr = Inl err \<longrightarrow>
      NewServiceDiscovery zc t tr = (Fatal (''Failed to initialize resolver: '' @ err), tr @ [NewResolver_call]))
   \<and> (Register_zc zc tr' (Hostname s) (ServiceType s) ''local.'' (Port s) (txtRecords_of (Config s)) = Inl err' \<longrightarrow>
      Register zc s (sd, tr') = (Fatal (''Failed to register service: '' @ err'),
         tr' @ [Register_call (Hostname s) (ServiceType s) ''local.'' (Port s) (txtRecords_of (Config s))]))"
  by (simp add: NewServiceDiscovery_def Register_def Let_def)

theorem failures_abort_process_witness:
  "NewResolver_zc offline_zeroconf [] = Inl ''no multicast interface''
   \<and> NewServiceDiscovery offline_zeroconf ''_myService._tcp'' [] =
        (Fatal ''Failed to initialize resolver: no multicast interface'', [NewResolver_call])
   \<and> Register_zc offline_zeroconf tr_fresh ''host1'' ''_myService._tcp'' ''local.'' 8080 [''v=1'', ''env=prod'']
        = Inl ''no multicast interface''
   \<and> Register offline_zeroconf svc1 (sd_fresh, tr_fresh) =
        (Fatal ''Failed to register service: no multicast interface'',
         [NewResolver_call, Register_call ''host1'' ''_myService._tcp'' ''local.'' 8080 [''v=1'', ''env=prod'']])"
  using failures_abort_process [of offline_zeroconf "[]" "''no multicast interface''" "''_myService._tcp''" tr_fresh svc1
      "''no multicast interface''" sd_fresh]
  by (simp add: offline_zeroconf_def svc1_def tr_fresh_def)

text \<open>
  Claim C6. On a fresh instance, after a sequence of calls that registers \<open>N\<close> services
  with pairwise distinct IDs, \<^verbatim>\<open>GetServices()\<close> returns \<open>N\<close> pairwise distinct IDs,
  the same set as the registered IDs, whatever order the runtime visits the keys in.
\<close>

theorem GetServices_distinct_ids:
  assumes "NewServiceDiscovery zc t tr0 = (Returned sd0, tr1)"
    and "run zc ops (sd0, tr1) = (Returned (rs, sd), tr)"
    and "distinct (map ID (registered ops))"
    and "rearranges shuffle (service_keys sd)"
  shows "length (GetServices shuffle sd) = length (registered ops)
         \<and> distinct (GetServices shuffle sd)
         \<and> set (GetServices shuffle sd) = ID ` set (registered ops)"
proof -
  have k0: "service_keys sd0 = []"
    using NewServiceDiscovery_Returned [OF assms(1)] by (simp add: service_keys_def)
  from run_keys [OF assms(2)] k0
  have keys: "set (service_keys sd) = ID ` set (registered ops)" and d: "distinct (service_keys sd)"
    by simp_all
  have g: "mset (GetServices shuffle sd) = mset (service_keys sd)"
    using assms(4) by (simp add: GetServices_def GetServices_loop_eq rearranges_def)
  have "mset (service_keys sd) = mset (map ID (registered ops))"
    using set_eq_iff_mset_eq_distinct [OF d assms(3)] keys by simp
  with g have m: "mset (GetServices shuffle sd) = mset (map ID (registered ops))" by simp
  have "length (GetServices shuffle sd) = length (registered ops)"
    using mset_eq_length [OF m] by simp
  moreover have "distinct (GetServices shuffle sd)"
    using mset_eq_imp_distinct_iff [OF m] assms(3) by simp
  moreover have "set (GetServices shuffle sd) = ID ` set (registered ops)"
    using mset_eq_setD [OF m] by simp
  ultimately show ?thesis by simp
qed

theorem GetServices_distinct_ids_witness:
  "NewServiceDiscovery checking_zeroconf ''_myService._tcp'' [] = (Returned sd_fresh, tr_fresh)
   \<and> run checking_zeroconf ops_two (sd_fresh, tr_fresh) = (Returned (rs_two, sd_two), tr_two)
   \<and> distinct (map ID (registered ops_two))
   \<and> rearranges rev (service_keys sd_two)
   \<and> length (GetServices rev sd_two) = 2
   \<and> distinct (GetServices rev sd_two)
   \<and> set (GetServices rev sd_two) = {''svc1'', ''svc2''}"
proof -
  have d: "distinct (map ID (registered ops_two))"
    by (simp add: ops_two_def svc1_def svc2_def)
  have r: "rearranges rev (service_keys sd_two)"
    by (simp add: rearranges_def)
  from GetServices_distinct_ids [OF fresh_eval two_eval d r] fresh_eval two_eval d r
  show ?thesis by (simp add: ops_two_def svc1_def svc2_def insert_commute)
qed



text \<open>
  Claim C8. Whenever \<^verbatim>\<open>Register(s)\<close> returns, the library has answered the
  registration with a handle, and the last call made before returning is the
  \<^verbatim>\<open>Shutdown\<close> of that handle: the announcement does not outlive the call.
\<close>

theorem Register_shuts_down_handle:
  assumes "Register zc s (sd, tr) = (Returned sd', tr')"
  shows "\<exists>server. Register_zc zc tr (Hostname s) (ServiceType s) ''local.'' (Port s) (txtRecords_of (Config s)) = Inr server
       \<and> tr' = tr @ [Register_call (Hostname s) (ServiceType s) ''local.'' (Port s) (txtRecords_of (Config s)),
                     Shutdown_call server]"
  using assms unfolding Register_Returned by blast

theorem Register_shuts_down_handle_witness:
  "Register checking_zeroconf svc1 (sd_fresh, tr_fresh) = (Returned sd_svc1, tr_svc1)
   \<and> Register_zc checking_zeroconf tr_fresh ''host1'' ''_myService._tcp'' ''local.'' 8080 [''v=1'', ''env=prod''] = Inr 1
   \<and> tr_svc1 = tr_fresh @ [Register_call ''host1'' ''_myService._tcp'' ''local.'' 8080 [''v=1'', ''env=prod''],
                            Shutdown_call 1]"
  using svc1_eval Register_shuts_down_handle [OF svc1_eval]
  by (simp add: svc1_def checking_zeroconf_def tr_fresh_def tr_svc1_def)

text \<open>
  Claim C9. \<^verbatim>\<open>Register(s)\<close> leaves the entry stored under every ID other than
  \<^verbatim>\<open>s.ID()\<close> as it was, and no sequence of calls removes an entry: an ID that has
  an entry before still has one after.
\<close>

theorem Register_frame:
  "(Register zc s (sd, tr) = (Returned sd1, tr1) \<and> i \<noteq> ID s
      \<longrightarrow> GetServiceById sd1 i = GetServiceById sd i)
   \<and> (run zc ops (sd', tr') = (Returned (rs, sd2), tr2) \<and> GetServiceById sd' j \<noteq> None
      \<longrightarrow> GetServiceById sd2 j \<noteq> None)"
  using Register_lookup [of zc s sd tr sd1 tr1 i] run_lookup_preserved [of zc ops sd' tr' rs sd2 tr2 j]
  by auto

theorem Register_frame_witness:
  "Register checking_zeroconf svc2 (sd_svc1, tr_svc1) = (Returned sd_two, tr_two)
   \<and> ''svc1'' \<noteq> ID svc2
   \<and> GetServiceById sd_two ''svc1'' = GetServiceById sd_svc1 ''svc1''
   \<and> run checking_zeroconf [Register_op svc1b] (sd_svc1, tr_svc1) = (Returned ([Register_done], sd_svc1b), tr_svc1b)
   \<and> GetServiceById sd_svc1 ''svc1'' \<noteq> None
   \<and> GetServiceById sd_svc1b ''svc1'' \<noteq> None"
proof -
  have r: "run checking_zeroconf [Register_op svc1b] (sd_svc1, tr_svc1) = (Returned ([Register_done], sd_svc1b), tr_svc1b)"
    by (simp add: svc1b_eval)
  have other: "''svc1'' \<noteq> ID svc2" by (simp add: svc2_def)
  have present: "GetServiceById sd_svc1 ''svc1'' \<noteq> None" by (simp add: GetServiceById_def sd_svc1_def)
  from Register_frame [of checking_zeroconf svc2 sd_svc1 tr_svc1 sd_two tr_two "''svc1''"
      "[Register_op svc1b]" sd_svc1 tr_svc1 "[Register_done]" sd_svc1b tr_svc1b "''svc1''"]
    svc2_eval r other present
  show ?thesis by simp
qed

text \<open>
  Claim C10. The field \<^verbatim>\<open>serviceType\<close> is never read. \<^verbatim>\<open>Register\<close> passes the
  service's own \<^verbatim>\<open>s.ServiceType()\<close> to the library, and on two instances that
  differ only in \<^verbatim>\<open>serviceType\<close> the same sequence of calls ends the same way, with
  the same results, the same registry, the same library calls, each instance keeping its
  own \<^verbatim>\<open>serviceType\<close>.
\<close>

theorem serviceType_never_read:
  "(\<exists>rest. snd (Register zc s (sd, tr)) =
       tr @ Register_call (Hostname s) (ServiceType s) ''local.'' (Port s) (txtRecords_of (Config s)) # rest)
   \<and> run zc ops (sd\<lparr>serviceType := t\<rparr>, tr) =
       (case run zc ops (sd, tr) of
          (out, tr') \<Rightarrow> (map_outcome (\<lambda>(rs, sd'). (rs, sd'\<lparr>serviceType := t\<rparr>)) out, tr'))"
  using Register_calls_library run_serviceType by simp

end
